theory Spec2Isabelle
  imports Complex_Main
begin

section \<open>JavaScript values that reach the front end\<close>

text \<open>
  The front end reads the back end's replies with \<^verbatim>\<open>response.json()\<close> (or lets the
  openapi-fetch client do so), so every value it inspects is a parsed JSON value or
  \<^verbatim>\<open>undefined\<close>. A parsed object has one entry per key. The number type is left open
  (\<open>'n\<close>): the two things the code does with a number, converting it to a string and
  testing it in a condition, are operations of the JavaScript runtime and are taken as
  parameters. \<^verbatim>\<open>undefined\<close> is \<open>None\<close> of \<open>'n jsvalue option\<close>.
\<close>

datatype 'n jsvalue =
    JNull
  | JBool bool
  | JNum 'n
  | JStr string
  | JArr "'n jsvalue list"
  | JObj "(string \<times> 'n jsvalue) list"

text \<open>What a rejected promise or a \<^verbatim>\<open>throw\<close> carries.\<close>

datatype js_exception =
    Error string          \<comment> \<open>\<^verbatim>\<open>new Error(message)\<close>\<close>
  | TypeError
  | SyntaxError

text \<open>
  \<^verbatim>\<open>v.detail\<close>: reading a property of \<^verbatim>\<open>null\<close> throws a TypeError; an object gives
  its own entry or \<^verbatim>\<open>undefined\<close>; a boolean, number, string or array has no property
  of that name.
\<close>

fun get_detail :: "'n jsvalue \<Rightarrow> js_exception + 'n jsvalue option" where
  "get_detail JNull = Inl TypeError"
| "get_detail (JObj kvs) = Inr (map_of kvs ''detail'')"
| "get_detail v = Inr None"

text \<open>\<^verbatim>\<open>a ?? b\<close>: \<open>b\<close> when \<open>a\<close> is \<^verbatim>\<open>undefined\<close> or \<^verbatim>\<open>null\<close>, else \<open>a\<close>.\<close>

fun nullish_or :: "'n jsvalue option \<Rightarrow> 'n jsvalue \<Rightarrow> 'n jsvalue" where
  "nullish_or None b = b"
| "nullish_or (Some JNull) b = b"
| "nullish_or (Some a) b = a"

text \<open>\<^verbatim>\<open>Array.prototype.join\<close> with the separator \<^verbatim>\<open>","\<close>, on the elements' strings.\<close>

fun join_comma :: "string list \<Rightarrow> string" where
  "join_comma [] = []"
| "join_comma [s] = s"
| "join_comma (s # t # ss) = s @ '','' @ join_comma (t # ss)"

fun sequence_sum :: "('e + 'a) list \<Rightarrow> 'e + 'a list" where
  "sequence_sum [] = Inr []"
| "sequence_sum (Inl e # rs) = Inl e"
| "sequence_sum (Inr a # rs) = (case sequence_sum rs of Inl e \<Rightarrow> Inl e | Inr as \<Rightarrow> Inr (a # as))"

text \<open>
  ToString, which \<^verbatim>\<open>new Error(message)\<close> applies to its argument. A string is itself.
  An array is its elements' strings joined by commas, \<^verbatim>\<open>null\<close> elements giving the empty
  string. An object is \<^verbatim>\<open>"[object Object]"\<close> through \<^verbatim>\<open>Object.prototype.toString\<close>,
  unless it has an own entry \<^verbatim>\<open>toString\<close>: a parsed value is never callable, the inherited
  \<^verbatim>\<open>valueOf\<close> (or an own one, not callable either) gives no primitive, and the
  conversion throws a TypeError.
\<close>

fun ToString :: "('n \<Rightarrow> string) \<Rightarrow> 'n jsvalue \<Rightarrow> js_exception + string" where
  "ToString num_str JNull = Inr ''null''"
| "ToString num_str (JBool b) = Inr (if b then ''true'' else ''false'')"
| "ToString num_str (JNum n) = Inr (num_str n)"
| "ToString num_str (JStr s) = Inr s"
| "ToString num_str (JArr vs) =
     (case sequence_sum (map (\<lambda>v. if v = JNull then Inr [] else ToString num_str v) vs) of
        Inl e \<Rightarrow> Inl e
      | Inr ss \<Rightarrow> Inr (join_comma ss))"
| "ToString num_str (JObj kvs) =
     (if ''toString'' \<in> fst ` set kvs then Inl TypeError else Inr ''[object Object]'')"

text \<open>ToBoolean, which \<^verbatim>\<open>if (error)\<close> applies.\<close>

fun ToBoolean :: "('n \<Rightarrow> bool) \<Rightarrow> 'n jsvalue option \<Rightarrow> bool" where
  "ToBoolean num_true None = False"
| "ToBoolean num_true (Some JNull) = False"
| "ToBoolean num_true (Some (JBool b)) = b"
| "ToBoolean num_true (Some (JNum n)) = num_true n"
| "ToBoolean num_true (Some (JStr s)) = (s \<noteq> [])"
| "ToBoolean num_true (Some (JArr vs)) = True"
| "ToBoolean num_true (Some (JObj kvs)) = True"



section \<open>\<^verbatim>\<open>runReconstruction\<close>: the request to the back end\<close>

subsection \<open>The version built on \<^verbatim>\<open>fetch\<close> (\<^verbatim>\<open>frontend/src/api/reconstruction.ts\<close>)\<close>



subsection \<open>The version built on the openapi-fetch client (\<^verbatim>\<open>unnamed/part_000\<close>)\<close>

text \<open>
  The client library is not part of the repository. The function reads two fields of
  what \<^verbatim>\<open>client.POST\<close> resolved with, \<^verbatim>\<open>data\<close> and \<^verbatim>\<open>error\<close>, and these are the input
  of the model; either may be \<^verbatim>\<open>undefined\<close>.
\<close>

record 'n fetch_response =
  data :: "'n jsvalue option"
  error :: "'n jsvalue option"

definition runReconstruction_client ::
  "('n \<Rightarrow> string) \<Rightarrow> ('n \<Rightarrow> bool) \<Rightarrow> 'n fetch_response \<Rightarrow> js_exception + 'n jsvalue option" where
  "runReconstruction_client num_str num_true r =
     (if ToBoolean num_true (error r) then
        (case error r of
           None \<Rightarrow> Inl TypeError
         | Some e \<Rightarrow>
             (case get_detail e of
                Inl ex \<Rightarrow> Inl ex
              | Inr detail \<Rightarrow>
                  (case ToString num_str (nullish_or detail (JStr ''Reconstruction failed'')) of
                     Inl ex \<Rightarrow> Inl ex
                   | Inr message \<Rightarrow> Inl (Error message))))
      else Inr (data r))"


section \<open>\<^verbatim>\<open>PointCloud\<close>: the buffers of the viewer\<close>

subsection \<open>Numbers\<close>

text \<open>
  A JavaScript number is an IEEE 754 double: a finite value, an infinity or NaN. A finite
  number is modelled by the real it denotes, so \<open>+0\<close> and \<open>-0\<close> are one value. The numbers
  of a reply are doubles already; the operations below are defined on every real.
\<close>

datatype jsnumber = Finite real | PosInf | NegInf | NaN

text \<open>The power of two with the integer exponent \<open>e\<close>.\<close>

definition pow2 :: "int \<Rightarrow> real" where
  "pow2 e = (if 0 \<le> e then 2 ^ nat e else 1 / 2 ^ nat (- e))"

text \<open>
  The binary exponent of a positive real \<open>x\<close>: the integer \<open>e\<close> with
  \<open>pow2 e \<le> x < pow2 (e + 1)\<close>, found by halving or doubling.
\<close>

function binary_exponent :: "real \<Rightarrow> int" where
  "binary_exponent x =
     (if x \<le> 0 then 0
      else if 2 \<le> x then binary_exponent (x / 2) + 1
      else if x < 1 then binary_exponent (x * 2) - 1
      else 0)"
  by pat_completeness auto
termination
proof (relation "measure (\<lambda>x. nat \<bar>\<lfloor>log 2 x\<rfloor>\<bar>)")
  show "wf (measure (\<lambda>x. nat \<bar>\<lfloor>log 2 x\<rfloor>\<bar>))"
    by simp
next
  fix x :: real
  assume "\<not> x \<le> 0" and x2: "2 \<le> x"
  then have "log 2 (x / 2) = log 2 x - 1"
    by (simp add: log_divide)
  moreover have "1 \<le> log 2 x"
    using x2 by (simp add: le_log_iff)
  ultimately show "(x / 2, x) \<in> measure (\<lambda>x. nat \<bar>\<lfloor>log 2 x\<rfloor>\<bar>)"
    by simp
next
  fix x :: real
  assume pos: "\<not> x \<le> 0" and "\<not> 2 \<le> x" and x1: "x < 1"
  then have eq: "log 2 (x * 2) = log 2 x + 1"
    by (simp add: log_mult)
  have "log 2 x < 0"
    using pos x1 by simp
  then have neg: "\<lfloor>log 2 x\<rfloor> \<le> - 1"
    by (simp add: floor_le_iff)
  have "\<lfloor>log 2 (x * 2)\<rfloor> = \<lfloor>log 2 x\<rfloor> + 1"
    using eq by simp
  with neg have "nat \<bar>\<lfloor>log 2 (x * 2)\<rfloor>\<bar> < nat \<bar>\<lfloor>log 2 x\<rfloor>\<bar>"
    by linarith
  then show "(x * 2, x) \<in> measure (\<lambda>x. nat \<bar>\<lfloor>log 2 x\<rfloor>\<bar>)"
    by simp
qed

declare binary_exponent.simps [simp del]

text \<open>Rounding to the nearest integer, a tie going to the even one.\<close>

definition round_half_even :: "real \<Rightarrow> int" where
  "round_half_even q =
     (let f = \<lfloor>q\<rfloor>; r = q - of_int f
      in if r < 1 / 2 then f
         else if 1 / 2 < r then f + 1
         else if even f then f else f + 1)"

text \<open>
  Rounding a real to a binary format with \<open>prec\<close> significant bits and exponents from
  \<open>emin\<close> to \<open>emax\<close>, to nearest with ties to even. The spacing of the format around \<open>x\<close>
  is \<open>pow2 (e - prec + 1)\<close> for the exponent \<open>e\<close> of \<open>x\<close>, which is not taken below \<open>emin\<close>
  (the subnormal range); a rounded value of magnitude \<open>pow2 (emax + 1)\<close> or more overflows
  to an infinity.
\<close>

definition round_to_format :: "nat \<Rightarrow> int \<Rightarrow> int \<Rightarrow> real \<Rightarrow> jsnumber" where
  "round_to_format prec emin emax x =
     (if x = 0 then Finite 0
      else
        let e = max (binary_exponent \<bar>x\<bar>) emin;
            ulp = pow2 (e - int prec + 1);
            y = of_int (round_half_even (x / ulp)) * ulp
        in if pow2 (emax + 1) \<le> \<bar>y\<bar> then (if 0 < x then PosInf else NegInf)
           else Finite y)"

text \<open>Double precision: 53 bits, exponents \<open>-1022\<close> to \<open>1023\<close>.\<close>

definition round_double :: "real \<Rightarrow> jsnumber" where
  "round_double = round_to_format 53 (- 1022) 1023"

text \<open>Single precision: 24 bits, exponents \<open>-126\<close> to \<open>127\<close>.\<close>

definition round_float32 :: "real \<Rightarrow> jsnumber" where
  "round_float32 = round_to_format 24 (- 126) 127"

text \<open>A store into a cell of a \<^verbatim>\<open>Float32Array\<close>: the number rounded to single precision.\<close>

definition to_float32 :: "jsnumber \<Rightarrow> jsnumber" where
  "to_float32 v =
     (case v of
        Finite x \<Rightarrow> round_float32 x
      | PosInf \<Rightarrow> PosInf
      | NegInf \<Rightarrow> NegInf
      | NaN \<Rightarrow> NaN)"

text \<open>\<^verbatim>\<open>a + b\<close> on doubles: the exact sum, rounded; infinities of opposite sign give NaN.\<close>

definition js_add :: "jsnumber \<Rightarrow> jsnumber \<Rightarrow> jsnumber" where
  "js_add a b =
     (case a of
        NaN \<Rightarrow> NaN
      | Finite x \<Rightarrow>
          (case b of
             Finite y \<Rightarrow> round_double (x + y)
           | PosInf \<Rightarrow> PosInf
           | NegInf \<Rightarrow> NegInf
           | NaN \<Rightarrow> NaN)
      | PosInf \<Rightarrow>
          (case b of Finite y \<Rightarrow> PosInf | PosInf \<Rightarrow> PosInf | NegInf \<Rightarrow> NaN | NaN \<Rightarrow> NaN)
      | NegInf \<Rightarrow>
          (case b of Finite y \<Rightarrow> NegInf | PosInf \<Rightarrow> NaN | NegInf \<Rightarrow> NegInf | NaN \<Rightarrow> NaN))"

text \<open>\<^verbatim>\<open>a - b\<close> on doubles: the exact difference, rounded; equal infinities give NaN.\<close>

definition js_sub :: "jsnumber \<Rightarrow> jsnumber \<Rightarrow> jsnumber" where
  "js_sub a b =
     (case a of
        NaN \<Rightarrow> NaN
      | Finite x \<Rightarrow>
          (case b of
             Finite y \<Rightarrow> round_double (x - y)
           | PosInf \<Rightarrow> NegInf
           | NegInf \<Rightarrow> PosInf
           | NaN \<Rightarrow> NaN)
      | PosInf \<Rightarrow>
          (case b of Finite y \<Rightarrow> PosInf | PosInf \<Rightarrow> NaN | NegInf \<Rightarrow> PosInf | NaN \<Rightarrow> NaN)
      | NegInf \<Rightarrow>
          (case b of Finite y \<Rightarrow> NegInf | PosInf \<Rightarrow> NegInf | NegInf \<Rightarrow> NaN | NaN \<Rightarrow> NaN))"

text \<open>
  \<^verbatim>\<open>c /= n\<close> for the length \<open>n\<close> of an array, which is a non-negative integer that a double
  holds exactly: the exact quotient, rounded. Dividing by the length 0 gives NaN for 0
  and an infinity otherwise.
\<close>

definition js_div_length :: "jsnumber \<Rightarrow> nat \<Rightarrow> jsnumber" where
  "js_div_length c n =
     (case c of
        NaN \<Rightarrow> NaN
      | PosInf \<Rightarrow> PosInf
      | NegInf \<Rightarrow> NegInf
      | Finite x \<Rightarrow>
          if n = 0 then (if x = 0 then NaN else if 0 < x then PosInf else NegInf)
          else round_double (x / real n))"

subsection \<open>The \<^verbatim>\<open>useMemo\<close> callback\<close>

text \<open>
  The component receives \<^verbatim>\<open>points: number[][]\<close> and \<^verbatim>\<open>colors: number[][]\<close>, the arrays of
  the back end's reply, and its \<^verbatim>\<open>useMemo\<close> callback fills two \<^verbatim>\<open>Float32Array\<close>s of
  \<open>3n\<close> cells, \<open>n = points.length\<close>.

  The \<open>k\<close>-th variable of an array destructuring is the entry, or \<^verbatim>\<open>undefined\<close> when the
  array is too short; \<^verbatim>\<open>undefined\<close> becomes NaN in arithmetic and in a store into a typed
  array, and it is modelled as NaN from the start.
\<close>

definition destructure :: "jsnumber list \<Rightarrow> nat \<Rightarrow> jsnumber" where
  "destructure a k = (if k < length a then a ! k else NaN)"

text \<open>The first loop, \<^verbatim>\<open>for (const [x, y, z] of points)\<close>, on the running sums.\<close>

fun centroid_sums ::
  "jsnumber list list \<Rightarrow> jsnumber \<times> jsnumber \<times> jsnumber \<Rightarrow> jsnumber \<times> jsnumber \<times> jsnumber" where
  "centroid_sums [] (cx, cy, cz) = (cx, cy, cz)"
| "centroid_sums (p # ps) (cx, cy, cz) =
     centroid_sums ps
       (js_add cx (destructure p 0), js_add cy (destructure p 1), js_add cz (destructure p 2))"

text \<open>
  The second loop, \<^verbatim>\<open>for (let i = 0; i < n; i++)\<close>, on the two buffers. \<^verbatim>\<open>points[i]\<close>
  exists since \<open>i < n\<close>. \<^verbatim>\<open>colors[i]\<close> is \<^verbatim>\<open>undefined\<close> when \<open>colors\<close> is too short, and
  destructuring \<^verbatim>\<open>undefined\<close> throws a TypeError, which ends the callback. Every
  assignment to a cell rounds to single precision.
\<close>

function fill_buffers ::
  "nat \<Rightarrow> nat \<Rightarrow> jsnumber list list \<Rightarrow> jsnumber list list \<Rightarrow> jsnumber \<times> jsnumber \<times> jsnumber \<Rightarrow>
   jsnumber list \<times> jsnumber list \<Rightarrow> js_exception + jsnumber list \<times> jsnumber list" where
  "fill_buffers i n points colors (cx, cy, cz) (positions, colorArray) =
     (if i < n then
        let p = points ! i;
            positions' = positions
              [i * 3 := to_float32 (js_sub (destructure p 0) cx),
               i * 3 + 1 := to_float32 (js_sub (destructure p 1) cy),
               i * 3 + 2 := to_float32 (js_sub (destructure p 2) cz)]
        in if i < length colors then
             let c = colors ! i;
                 colorArray' = colorArray
                   [i * 3 := to_float32 (destructure c 0),
                    i * 3 + 1 := to_float32 (destructure c 1),
                    i * 3 + 2 := to_float32 (destructure c 2)]
             in fill_buffers (i + 1) n points colors (cx, cy, cz) (positions', colorArray')
           else Inl TypeError
      else Inr (positions, colorArray))"
  by pat_completeness auto
termination
  by (relation "measure (\<lambda>(i, n, points, colors, c, bufs). n - i)") auto

declare fill_buffers.simps [simp del]

text \<open>The callback: both buffers start as \<open>3n\<close> zeros.\<close>

definition PointCloud ::
  "jsnumber list list \<Rightarrow> jsnumber list list \<Rightarrow> js_exception + jsnumber list \<times> jsnumber list" where
  "PointCloud points colors =
     (let n = length points;
          positions = replicate (n * 3) (Finite 0);
          colorArray = replicate (n * 3) (Finite 0);
          (sx, sy, sz) = centroid_sums points (Finite 0, Finite 0, Finite 0);
          cx = js_div_length sx n;
          cy = js_div_length sy n;
          cz = js_div_length sz n
      in fill_buffers 0 n points colors (cx, cy, cz) (positions, colorArray))"

text \<open>
  The mean of the \<open>k\<close>-th coordinate in double arithmetic, for stating what the buffers
  hold: the sum taken from 0 in the order of the list, divided by the number of points.
\<close>

definition coordinate_mean :: "jsnumber list list \<Rightarrow> nat \<Rightarrow> jsnumber" where
  "coordinate_mean points k =
     js_div_length (foldl js_add (Finite 0) (map (\<lambda>p. destructure p k) points)) (length points)"

section \<open>\<open>CalibrationResolver\<close>: the camera intrinsics of the two views\<close>

text \<open>
  Modelled from the spec: the back end that resolves the calibration is not among the
  sources, which hold the front end only. The error taxonomy of the pipeline
  (specification, section 7).
\<close>

datatype pipeline_error =
    DecodeFailure
  | InvalidCalibration
  | InsufficientMatches
  | DegenerateGeometry

text \<open>
  Modelled from the spec: \<open>CameraIntrinsics\<close> is the focal length \<open>f\<close> and the principal
  point \<open>(cx, cy)\<close> of one view (section 3); the back end's own type is not among the
  sources.
\<close>

record CameraIntrinsics =
  intr_f :: real
  intr_cx :: real
  intr_cy :: real

text \<open>
  Modelled from the spec: the rule of section 3 for a view without calibration,
  \<open>f = max(width, height)\<close>, \<open>cx = width/2\<close>, \<open>cy = height/2\<close>; the back end function that
  applies it is not among the sources.
\<close>

definition default_intrinsics :: "nat \<Rightarrow> nat \<Rightarrow> CameraIntrinsics" where
  "default_intrinsics width height =
     \<lparr>intr_f = real (max width height), intr_cx = real width / 2, intr_cy = real height / 2\<rparr>"

text \<open>
  Modelled from the spec: \<open>CalibrationResolver\<close> of section 4.1, which is not among the
  sources. Its input is the optional calibration text and the dimensions of both
  images. A text that is present is parsed, and malformed content fails with
  \<open>InvalidCalibration\<close>; the parser of the grammar is a parameter, since the spec does not
  fix the syntax of its literals. Without a text each view gets the default intrinsics
  of its own image.
\<close>

definition CalibrationResolver ::
  "(string \<Rightarrow> (CameraIntrinsics \<times> CameraIntrinsics) option) \<Rightarrow> string option \<Rightarrow>
   nat \<times> nat \<Rightarrow> nat \<times> nat \<Rightarrow> pipeline_error + CameraIntrinsics \<times> CameraIntrinsics" where
  "CalibrationResolver parse_calibration calib dims0 dims1 =
     (case calib of
        None \<Rightarrow>
          Inr (default_intrinsics (fst dims0) (snd dims0),
               default_intrinsics (fst dims1) (snd dims1))
      | Some content \<Rightarrow>
          (case parse_calibration content of
             None \<Rightarrow> Inl InvalidCalibration
           | Some intrinsics \<Rightarrow> Inr intrinsics))"

section \<open>Properties of \<^verbatim>\<open>runReconstruction\<close>\<close>













text \<open>
  When \<^verbatim>\<open>error\<close> is falsy the client version returns \<^verbatim>\<open>data\<close>, whatever the status of the
  reply was; with \<^verbatim>\<open>error\<close> being \<^verbatim>\<open>undefined\<close>, the empty string or \<^verbatim>\<open>null\<close>, and no
  \<^verbatim>\<open>data\<close>, it resolves to \<^verbatim>\<open>undefined\<close>.
\<close>

lemma runReconstruction_client_falsy_error:
  "\<not> ToBoolean num_true (error p) \<Longrightarrow> runReconstruction_client num_str num_true p = Inr (data p)"
  by (simp add: runReconstruction_client_def)

lemma runReconstruction_client_empty_body:
  "runReconstruction_client num_str num_true \<lparr>data = None, error = None\<rparr> = Inr None
   \<and> runReconstruction_client num_str num_true \<lparr>data = None, error = Some (JStr [])\<rparr> = Inr None
   \<and> runReconstruction_client num_str num_true \<lparr>data = None, error = Some JNull\<rparr> = Inr None"
  by (simp add: runReconstruction_client_def)

section \<open>Properties of the numbers and of \<^verbatim>\<open>PointCloud\<close>\<close>

lemmas round_eval =
  round_double_def round_float32_def round_to_format_def Let_def binary_exponent.simps
  pow2_def round_half_even_def

lemmas js_eval = to_float32_def js_add_def js_sub_def js_div_length_def destructure_def

text \<open>The exponent found by halving and doubling is the integer part of the logarithm.\<close>

lemma binary_exponent_log: "0 < x \<Longrightarrow> binary_exponent x = \<lfloor>log 2 x\<rfloor>"
proof (induction x rule: binary_exponent.induct)
  case (1 x)
  show ?case
  proof (cases "2 \<le> x")
    case True
    then have "log 2 (x / 2) = log 2 x - 1"
      by (simp add: log_divide)
    with 1 True show ?thesis
      by (subst binary_exponent.simps) simp
  next
    case False
    show ?thesis
    proof (cases "x < 1")
      case True
      then have "log 2 (x * 2) = log 2 x + 1"
        using 1 by (simp add: log_mult)
      with 1 True False show ?thesis
        by (subst binary_exponent.simps) simp
    next
      case x1: False
      then have "0 \<le> log 2 x" "log 2 x < 1"
        using False by (simp_all add: less_log_iff log_less_iff)
      then have "\<lfloor>log 2 x\<rfloor> = 0" by linarith
      with x1 False 1 show ?thesis
        by (subst binary_exponent.simps) simp
    qed
  qed
qed

lemma upd3_nth:
  "j < length xs \<Longrightarrow>
   (xs[i * 3 := a, i * 3 + 1 := b, i * 3 + 2 := c]) ! j =
     (if j div 3 = i then [a, b, c] ! (j mod 3) else xs ! j)"
proof (cases "j div 3 = i")
  case True
  assume j: "j < length xs"
  have "j mod 3 = 0 \<or> j mod 3 = 1 \<or> j mod 3 = 2" by presburger
  moreover have jj: "j = i * 3 + j mod 3" using True by presburger
  ultimately consider "j = i * 3" | "j = i * 3 + 1" | "j = i * 3 + 2" by auto
  then show ?thesis
  proof cases
    case 1
    then have m: "j mod 3 = 0" by presburger
    have "(xs[i * 3 := a, i * 3 + 1 := b, i * 3 + 2 := c]) ! j = a"
      using 1 j by (simp add: nth_list_update)
    then show ?thesis using True m by simp
  next
    case 2
    then have m: "j mod 3 = 1" by presburger
    have "(xs[i * 3 := a, i * 3 + 1 := b, i * 3 + 2 := c]) ! j = b"
      using 2 j by (simp add: nth_list_update)
    then show ?thesis using True m by simp
  next
    case 3
    then have m: "j mod 3 = 2" by presburger
    have "(xs[i * 3 := a, i * 3 + 1 := b, i * 3 + 2 := c]) ! j = c"
      using 3 j by (simp add: nth_list_update)
    then show ?thesis using True m by simp
  qed
next
  case False
  then have "j \<noteq> i * 3" "j \<noteq> i * 3 + 1" "j \<noteq> i * 3 + 2" by presburger+
  then show ?thesis using False by (simp add: nth_list_update)
qed

lemma fill_buffers_ok:
  "i \<le> n \<Longrightarrow> n \<le> length colors \<Longrightarrow>
   \<exists>P C. fill_buffers i n points colors (cx, cy, cz) (P0, C0) = Inr (P, C)
     \<and> length P = length P0 \<and> length C = length C0
     \<and> (\<forall>j<length P0. P ! j =
           (if i * 3 \<le> j \<and> j < n * 3
            then to_float32 (js_sub (destructure (points ! (j div 3)) (j mod 3)) ([cx, cy, cz] ! (j mod 3)))
            else P0 ! j))
     \<and> (\<forall>j<length C0. C ! j =
           (if i * 3 \<le> j \<and> j < n * 3
            then to_float32 (destructure (colors ! (j div 3)) (j mod 3))
            else C0 ! j))"
proof (induction i n points colors "(cx, cy, cz)" "(P0, C0)" arbitrary: P0 C0 rule: fill_buffers.induct)
  case (1 i n points colors positions colorArray)
  show ?case
  proof (cases "i < n")
    case False
    then have "i = n" using "1.prems" by simp
    then show ?thesis by (subst fill_buffers.simps) auto
  next
    case True
    define P1 where "P1 = positions
              [i * 3 := to_float32 (js_sub (destructure (points ! i) 0) cx),
               i * 3 + 1 := to_float32 (js_sub (destructure (points ! i) 1) cy),
               i * 3 + 2 := to_float32 (js_sub (destructure (points ! i) 2) cz)]"
    define C1 where "C1 = colorArray
                   [i * 3 := to_float32 (destructure (colors ! i) 0),
                    i * 3 + 1 := to_float32 (destructure (colors ! i) 1),
                    i * 3 + 2 := to_float32 (destructure (colors ! i) 2)]"
    have ic: "i < length colors" using True "1.prems" by simp
    have step: "fill_buffers i n points colors (cx, cy, cz) (positions, colorArray)
      = fill_buffers (i + 1) n points colors (cx, cy, cz) (P1, C1)"
      using True ic by (subst fill_buffers.simps) (simp add: P1_def C1_def Let_def)
    have "i + 1 \<le> n" using True by simp
    from "1.hyps"[OF True refl refl ic refl refl this "1.prems"(2), folded P1_def C1_def]
    obtain P C where res: "fill_buffers (i + 1) n points colors (cx, cy, cz) (P1, C1) = Inr (P, C)"
      and lP: "length P = length P1" and lC: "length C = length C1"
      and nP: "\<forall>j<length P1. P ! j =
           (if (i + 1) * 3 \<le> j \<and> j < n * 3
            then to_float32 (js_sub (destructure (points ! (j div 3)) (j mod 3)) ([cx, cy, cz] ! (j mod 3)))
            else P1 ! j)"
      and nC: "\<forall>j<length C1. C ! j =
           (if (i + 1) * 3 \<le> j \<and> j < n * 3
            then to_float32 (destructure (colors ! (j div 3)) (j mod 3))
            else C1 ! j)"
      by blast
    have lP1: "length P1 = length positions" and lC1: "length C1 = length colorArray"
      by (simp_all add: P1_def C1_def)
    have P1n: "\<And>j. j < length positions \<Longrightarrow> P1 ! j =
        (if j div 3 = i
         then to_float32 (js_sub (destructure (points ! i) (j mod 3)) ([cx, cy, cz] ! (j mod 3)))
         else positions ! j)"
    proof -
      fix j assume j: "j < length positions"
      have m: "j mod 3 = 0 \<or> j mod 3 = 1 \<or> j mod 3 = 2" by presburger
      show "P1 ! j = (if j div 3 = i
         then to_float32 (js_sub (destructure (points ! i) (j mod 3)) ([cx, cy, cz] ! (j mod 3)))
         else positions ! j)"
        unfolding P1_def upd3_nth[OF j] using m by auto
    qed
    have C1n: "\<And>j. j < length colorArray \<Longrightarrow> C1 ! j =
        (if j div 3 = i then to_float32 (destructure (colors ! i) (j mod 3)) else colorArray ! j)"
    proof -
      fix j assume j: "j < length colorArray"
      have m: "j mod 3 = 0 \<or> j mod 3 = 1 \<or> j mod 3 = 2" by presburger
      show "C1 ! j = (if j div 3 = i then to_float32 (destructure (colors ! i) (j mod 3)) else colorArray ! j)"
        unfolding C1_def upd3_nth[OF j] using m by auto
    qed
    have rng: "\<And>j. (i * 3 \<le> j \<and> j < n * 3) = (j div 3 = i \<or> ((i + 1) * 3 \<le> j \<and> j < n * 3))"
      using True by presburger
    have excl: "\<And>j. (i + 1) * 3 \<le> j \<Longrightarrow> j div 3 \<noteq> i" by presburger
    have "\<forall>j<length positions. P ! j =
           (if i * 3 \<le> j \<and> j < n * 3
            then to_float32 (js_sub (destructure (points ! (j div 3)) (j mod 3)) ([cx, cy, cz] ! (j mod 3)))
            else positions ! j)"
      using nP P1n excl by (auto simp: lP1 rng)
    moreover have "\<forall>j<length colorArray. C ! j =
           (if i * 3 \<le> j \<and> j < n * 3
            then to_float32 (destructure (colors ! (j div 3)) (j mod 3))
            else colorArray ! j)"
      using nC C1n excl by (auto simp: lC1 rng)
    ultimately show ?thesis
      using step res lP lC lP1 lC1 by simp
  qed
qed

lemma centroid_sums_foldl:
  "centroid_sums points (a, b, c) =
     (foldl js_add a (map (\<lambda>p. destructure p 0) points),
      foldl js_add b (map (\<lambda>p. destructure p 1) points),
      foldl js_add c (map (\<lambda>p. destructure p 2) points))"
  by (induction points arbitrary: a b c) simp_all

lemma fill_buffers_short:
  "i \<le> length colors \<Longrightarrow> length colors < n \<Longrightarrow>
   fill_buffers i n points colors (cx, cy, cz) (P0, C0) = Inl TypeError"
proof (induction i n points colors "(cx, cy, cz)" "(P0, C0)" arbitrary: P0 C0 rule: fill_buffers.induct)
  case (1 i n points colors positions colorArray)
  have lt: "i < n" using "1.prems" by simp
  show ?case
  proof (cases "i < length colors")
    case True
    then have "i + 1 \<le> length colors" by simp
    from "1.hyps"[OF lt refl refl True refl refl this "1.prems"(2)]
    show ?thesis using lt True by (subst fill_buffers.simps) (simp add: Let_def)
  next
    case False
    then show ?thesis using lt by (subst fill_buffers.simps) (simp add: Let_def)
  qed
qed

lemma PointCloud_short: "length colors < length points \<Longrightarrow> PointCloud points colors = Inl TypeError"
  by (simp add: PointCloud_def Let_def fill_buffers_short split: prod.splits)

section \<open>The claims\<close>

subsection \<open>C7: intrinsics without a calibration file\<close>

text \<open>
  Claim C7. Without a calibration file, \<open>CalibrationResolver\<close> gives each view the
  intrinsics \<open>f = max(w, h)\<close>, \<open>cx = w/2\<close>, \<open>cy = h/2\<close> of its own image, whatever the
  other image is; a 640 by 480 image gets \<open>f = 640\<close>, \<open>cx = 320\<close>, \<open>cy = 240\<close>, as the
  first or as the second view; and the result is never an error.
\<close>

theorem CalibrationResolver_default_intrinsics:
  "CalibrationResolver parse_calibration None (w0, h0) (w1, h1) =
     Inr (\<lparr>intr_f = real (max w0 h0), intr_cx = real w0 / 2, intr_cy = real h0 / 2\<rparr>,
          \<lparr>intr_f = real (max w1 h1), intr_cx = real w1 / 2, intr_cy = real h1 / 2\<rparr>)
   \<and> CalibrationResolver parse_calibration None (640, 480) (w1, h1) =
     Inr (\<lparr>intr_f = 640, intr_cx = 320, intr_cy = 240\<rparr>, default_intrinsics w1 h1)
   \<and> CalibrationResolver parse_calibration None (w0, h0) (640, 480) =
     Inr (default_intrinsics w0 h0, \<lparr>intr_f = 640, intr_cx = 320, intr_cy = 240\<rparr>)
   \<and> CalibrationResolver parse_calibration None dims0 dims1 \<noteq> Inl e"
  by (simp add: CalibrationResolver_def default_intrinsics_def)

subsection \<open>C9: a reply that is not ok\<close>




subsection \<open>C10: centred positions and copied colours\<close>

text \<open>
  Claim C10 as stated says that the positions are the points minus their mean, that
  they sum to zero, and that the colours are copied unchanged. None of the three holds
  for three points with the x coordinates 0, 1 and 3 and a first colour whose red is 0.1
  (the double \<open>3602879701896397 / 36028797018963968\<close>). The mean \<open>4/3\<close> is rounded to a
  double and each difference to single precision: the first x cell is not \<open>0 - 4/3\<close>,
  the three x cells sum to \<open>-3 / 33554432\<close>, and the red cell holds
  \<open>13421773 / 134217728\<close>, which is 0.100000001490116119384765625.
\<close>

theorem PointCloud_rounding:
  "PointCloud
     [[Finite 0, Finite 0, Finite 0], [Finite 1, Finite 0, Finite 0], [Finite 3, Finite 0, Finite 0]]
     [[Finite (3602879701896397 / 36028797018963968), Finite 0, Finite 0],
      [Finite 0, Finite 1, Finite 0], [Finite 0, Finite 0, Finite 1]]
   = Inr ([Finite (- (11184811 / 8388608)), Finite 0, Finite 0,
           Finite (- (11184811 / 33554432)), Finite 0, Finite 0,
           Finite (13981013 / 8388608), Finite 0, Finite 0],
          [Finite (13421773 / 134217728), Finite 0, Finite 0,
           Finite 0, Finite 1, Finite 0,
           Finite 0, Finite 0, Finite 1])
   \<and> Finite (13421773 / 134217728) \<noteq> Finite (3602879701896397 / 36028797018963968)
   \<and> Finite (- (11184811 / 8388608)) \<noteq> Finite (0 - (0 + 1 + 3) / 3)
   \<and> - (11184811 / 8388608) + - (11184811 / 33554432) + 13981013 / 8388608 \<noteq> (0 :: real)"
  by (simp add: PointCloud_def fill_buffers.simps js_eval round_eval) (simp add: eval_nat_numeral)

text \<open>
  Claim C10, amended. Let \<open>colors\<close> have at least as many entries as \<open>points\<close>. Then the
  callback returns two buffers of \<open>3n\<close> cells, \<open>n = points.length\<close>. Cell \<open>3i + k\<close> of the
  positions is coordinate \<open>k\<close> of point \<open>i\<close> minus the mean of that coordinate, both the
  mean and the difference computed in double arithmetic, rounded to single precision.
  Cell \<open>3i + k\<close> of the colours is component \<open>k\<close> of colour \<open>i\<close>, rounded to single
  precision. A component that is missing counts as NaN.
\<close>

theorem PointCloud_centred:
  assumes lc: "length points \<le> length colors"
  shows "\<exists>positions colorArray. PointCloud points colors = Inr (positions, colorArray)
     \<and> length positions = 3 * length points \<and> length colorArray = 3 * length points
     \<and> (\<forall>i<length points. \<forall>k<3.
           positions ! (3 * i + k) =
             to_float32 (js_sub (destructure (points ! i) k) (coordinate_mean points k))
         \<and> colorArray ! (3 * i + k) = to_float32 (destructure (colors ! i) k))"
proof -
  define n where "n = length points"
  define m where "m = coordinate_mean points"
  have pc: "PointCloud points colors =
     fill_buffers 0 n points colors (m 0, m 1, m 2)
       (replicate (n * 3) (Finite 0), replicate (n * 3) (Finite 0))"
    by (simp add: PointCloud_def Let_def centroid_sums_foldl m_def coordinate_mean_def n_def)
  from fill_buffers_ok [of 0 n colors points "m 0" "m 1" "m 2"
      "replicate (n * 3) (Finite 0)" "replicate (n * 3) (Finite 0)"] lc
  obtain P C where res: "PointCloud points colors = Inr (P, C)"
    and lP: "length P = n * 3" and lC: "length C = n * 3"
    and nP: "\<forall>j<n * 3. P ! j = to_float32 (js_sub (destructure (points ! (j div 3)) (j mod 3))
                                ([m 0, m 1, m 2] ! (j mod 3)))"
    and nC: "\<forall>j<n * 3. C ! j = to_float32 (destructure (colors ! (j div 3)) (j mod 3))"
    unfolding pc n_def by auto
  have mk: "\<And>k. k < 3 \<Longrightarrow> [m 0, m 1, m 2] ! k = m k"
  proof -
    fix k :: nat assume "k < 3"
    then consider "k = 0" | "k = 1" | "k = 2" by linarith
    then show "[m 0, m 1, m 2] ! k = m k" by cases simp_all
  qed
  have at: "\<And>i k. i < n \<Longrightarrow> k < 3 \<Longrightarrow>
      3 * i + k < n * 3 \<and> (3 * i + k) div 3 = i \<and> (3 * i + k) mod 3 = k"
    by auto
  have "\<forall>i<length points. \<forall>k<3.
           P ! (3 * i + k) = to_float32 (js_sub (destructure (points ! i) k) (coordinate_mean points k))
         \<and> C ! (3 * i + k) = to_float32 (destructure (colors ! i) k)"
    using at nP nC mk by (simp add: n_def [symmetric] m_def)
  then show ?thesis
    using res lP lC by (simp add: n_def mult.commute)
qed

text \<open>
  The amended claim C10 at two points with two colours, all of them small integers, on
  which no operation rounds.
\<close>

theorem PointCloud_centred_witness:
  "PointCloud [[Finite 1, Finite 2, Finite 3], [Finite 3, Finite 4, Finite 9]]
              [[Finite 1, Finite 0, Finite 0], [Finite 0, Finite 1, Finite 0]] =
     Inr ([Finite (- 1), Finite (- 1), Finite (- 3), Finite 1, Finite 1, Finite 3],
          [Finite 1, Finite 0, Finite 0, Finite 0, Finite 1, Finite 0])"
proof -
  let ?points = "[[Finite 1, Finite 2, Finite 3], [Finite 3, Finite 4, Finite 9]]"
  let ?colors = "[[Finite 1, Finite 0, Finite 0], [Finite 0, Finite 1, Finite 0]]"
  have "length ?points \<le> length ?colors"
    by simp
  from PointCloud_centred [OF this]
  obtain ps cs where res: "PointCloud ?points ?colors = Inr (ps, cs)"
    and len: "length ps = 6" "length cs = 6"
    and vals: "\<forall>i<2. \<forall>k<3.
           ps ! (3 * i + k) =
             to_float32 (js_sub (destructure (?points ! i) k) (coordinate_mean ?points k))
         \<and> cs ! (3 * i + k) = to_float32 (destructure (?colors ! i) k)"
    by auto
  have m: "coordinate_mean ?points 0 = Finite 2" "coordinate_mean ?points (Suc 0) = Finite 3"
    "coordinate_mean ?points (Suc (Suc 0)) = Finite 6"
    by (simp_all add: coordinate_mean_def js_eval round_eval)
  note at = vals [rule_format]
  have v: "ps ! 0 = Finite (- 1) \<and> cs ! 0 = Finite 1" "ps ! 1 = Finite (- 1) \<and> cs ! 1 = Finite 0"
    "ps ! 2 = Finite (- 3) \<and> cs ! 2 = Finite 0" "ps ! 3 = Finite 1 \<and> cs ! 3 = Finite 0"
    "ps ! 4 = Finite 1 \<and> cs ! 4 = Finite 1" "ps ! 5 = Finite 3 \<and> cs ! 5 = Finite 0"
    using at [of 0 0] at [of 0 1] at [of 0 2] at [of 1 0] at [of 1 1] at [of 1 2]
    by (simp_all add: m js_eval round_eval numeral_2_eq_2)
  have six: "\<And>xs ys :: jsnumber list. length xs = 6 \<Longrightarrow> length ys = 6 \<Longrightarrow>
      xs ! 0 = ys ! 0 \<Longrightarrow> xs ! 1 = ys ! 1 \<Longrightarrow> xs ! 2 = ys ! 2 \<Longrightarrow> xs ! 3 = ys ! 3 \<Longrightarrow>
      xs ! 4 = ys ! 4 \<Longrightarrow> xs ! 5 = ys ! 5 \<Longrightarrow> xs = ys"
  proof -
    fix xs ys :: "jsnumber list"
    assume l: "length xs = 6" "length ys = 6"
      and e: "xs ! 0 = ys ! 0" "xs ! 1 = ys ! 1" "xs ! 2 = ys ! 2" "xs ! 3 = ys ! 3"
        "xs ! 4 = ys ! 4" "xs ! 5 = ys ! 5"
    show "xs = ys"
    proof (rule nth_equalityI)
      show "length xs = length ys" using l by simp
    next
      fix i assume "i < length xs"
      then have "i < 6" using l by simp
      then consider "i = 0" | "i = 1" | "i = 2" | "i = 3" | "i = 4" | "i = 5" by linarith
      then show "xs ! i = ys ! i" using e by cases simp_all
    qed
  qed
  have ps: "ps = [Finite (- 1), Finite (- 1), Finite (- 3), Finite 1, Finite 1, Finite 3]"
    using len v by (intro six) simp_all
  have cs: "cs = [Finite 1, Finite 0, Finite 0, Finite 0, Finite 1, Finite 0]"
    using len v by (intro six) simp_all
  from res ps cs show ?thesis by simp
qed

end
